theory Spec2Isabelle
  imports Complex_Main
begin

section \<open>The Syncy socket server (server/index.ts)\<close>

text \<open>
  The server keeps one process-wide table \<open>rooms\<close> and, per connection, two closure
  variables (\<open>currentRoomId\<close>, \<open>currentUserId\<close>). Every handler runs to completion before
  the next one starts, so a handler is a function from the state before to the state
  after together with the list of messages it emits, in emission order.

  An uncaught exception inside a handler is the value \<open>Inl TypeError\<close>.

  Each call of \<open>Date.now()\<close> / \<open>new Date()\<close> is a separate reading of the wall clock; the
  readings a handler may take are passed in a record, one field per call site.
\<close>

subsection \<open>JavaScript Map: insertion-ordered, keys unique\<close>

type_synonym ('k, 'v) jsmap = "('k \<times> 'v) list"

definition jsmap_get :: "('k, 'v) jsmap \<Rightarrow> 'k \<Rightarrow> 'v option" where
  "jsmap_get m k = map_of m k"

definition jsmap_has :: "('k, 'v) jsmap \<Rightarrow> 'k \<Rightarrow> bool" where
  "jsmap_has m k = (map_of m k \<noteq> None)"

text \<open>\<open>Map.set\<close> keeps the position of a key that is already present and appends a new one.\<close>

fun jsmap_set :: "('k, 'v) jsmap \<Rightarrow> 'k \<Rightarrow> 'v \<Rightarrow> ('k, 'v) jsmap" where
  "jsmap_set [] k v = [(k, v)]"
| "jsmap_set ((k', v') # m) k v =
     (if k' = k then (k, v) # m else (k', v') # jsmap_set m k v)"

definition jsmap_delete :: "('k, 'v) jsmap \<Rightarrow> 'k \<Rightarrow> ('k, 'v) jsmap" where
  "jsmap_delete m k = filter (\<lambda>e. fst e \<noteq> k) m"

definition jsmap_values :: "('k, 'v) jsmap \<Rightarrow> 'v list" where
  "jsmap_values m = map snd m"

definition jsmap_size :: "('k, 'v) jsmap \<Rightarrow> nat" where
  "jsmap_size m = length m"

subsection \<open>Types\<close>

record member =
  userId :: string
  username :: string
  socketId :: string
  joinedAt :: int  \<comment> \<open>the instant whose ISO rendering the source stores\<close>

record song =
  song_id :: string
  title :: string
  artist :: string
  url :: string
  source :: string
  coverUrl :: "string option"
  duration :: "real option"

text \<open>
  \<open>status\<close> is declared \<open>'playing' | 'paused' | 'idle'\<close>, but the declaration is erased at
  run time and the field holds whatever string is assigned to it.
\<close>

record room_state =
  members :: "(string, member) jsmap"
  socketToUser :: "(string, string) jsmap"
  hostUserId :: "string option"
  currentSong :: "song option"
  position :: real
  status :: string
  lastSync :: int

record closure =
  currentRoomId :: "string option"
  currentUserId :: "string option"

text \<open>
  \<open>adapter\<close> is socket.io's channel table: the pair \<open>(ch, sid)\<close> says that connection \<open>sid\<close>
  is subscribed to channel \<open>ch\<close>. Every connection is subscribed to the channel named by
  its own id.
\<close>

record server =
  rooms :: "(string, room_state) jsmap"
  conns :: "(string, closure) jsmap"
  adapter :: "(string \<times> string) list"

record reads =
  tCreate :: int  \<comment> \<open>\<open>Date.now()\<close> in getRoom\<close>
  tJoined :: int  \<comment> \<open>\<open>new Date()\<close> for joinedAt\<close>
  tClock :: int   \<comment> \<open>\<open>Date.now()\<close> in getCurrentPosition\<close>
  tSync :: int    \<comment> \<open>\<open>Date.now()\<close> assigned to lastSync\<close>
  tEmit :: int    \<comment> \<open>\<open>Date.now()\<close> sent as server_time\<close>

datatype error = TypeError

text \<open>The rows of \<open>serializeMembers\<close>: user_id, username, room_id, joined_at.\<close>

type_synonym member_row = "string \<times> string \<times> string \<times> int"

text \<open>
  Inbound messages. A message either carries a payload object or none at all (the client
  emitted the event name alone, or with \<open>null\<close>): \<open>NoPayload h\<close> is the message for handler
  \<open>h\<close> without one. In a payload object a field of type \<open>string option\<close> or \<open>real option\<close>
  may be missing (\<open>None\<close>); the position and status of a heartbeat are taken at their
  declared types. The last argument of \<open>SyncPosition\<close>, \<open>Play\<close> and \<open>Pause\<close> is the
  \<open>server_time\<close> the client put into the payload; no handler reads it.
\<close>

datatype handler_name = OnJoinRoom | OnRequestState | OnSyncPosition | OnPlay | OnPause
  | OnSongChange | OnNextSong | OnVote | OnLeaveRoom

datatype vote_data = VoteData (v_room_id: "string option") (v_poll_id: "string option")
  (v_user_id: "string option") (v_song_id: "string option")

datatype inbound =
    JoinRoom "string option" "string option" "string option"
  | RequestState "string option"
  | SyncPosition "string option" real string "int option"
  | Play "string option" "real option" "int option"
  | Pause "string option" "real option" "int option"
  | SongChange "string option" "song option"
  | NextSong "string option"
  | Vote vote_data
  | LeaveRoom "string option"
  | NoPayload handler_name

datatype outbound =
    MembersUpdate string "member_row list"
  | RoomStateMsg string "song option" real string int "member_row list"
  | SyncPositionMsg "string option" real string int
  | SongChangeMsg "string option" "song option"
  | NextSongMsg "string option"
  | PromotedToHost string
  | VoteMsg vote_data

text \<open>
  \<open>ToSocket sid\<close> is \<open>socket.emit\<close>, \<open>IoTo ch\<close> is \<open>io.to(ch).emit\<close>, and
  \<open>SocketTo ch sid\<close> is \<open>socket.to(ch).emit\<close> on connection \<open>sid\<close>.
\<close>

datatype target = ToSocket string | IoTo string | SocketTo "string option" string

datatype emit = Emit target outbound

subsection \<open>socket.io channels\<close>

definition adapter_join :: "(string \<times> string) list \<Rightarrow> string \<Rightarrow> string \<Rightarrow> (string \<times> string) list" where
  "adapter_join ad ch sid = List.insert (ch, sid) ad"

definition adapter_leave :: "(string \<times> string) list \<Rightarrow> string \<Rightarrow> string \<Rightarrow> (string \<times> string) list" where
  "adapter_leave ad ch sid = removeAll (ch, sid) ad"

definition adapter_leaveAll :: "(string \<times> string) list \<Rightarrow> string \<Rightarrow> (string \<times> string) list" where
  "adapter_leaveAll ad sid = filter (\<lambda>e. snd e \<noteq> sid) ad"

definition subscribers :: "(string \<times> string) list \<Rightarrow> string \<Rightarrow> string list" where
  "subscribers ad ch = map snd (filter (\<lambda>e. fst e = ch) ad)"

text \<open>The connections a message with the given target is delivered to.\<close>

fun recipients :: "(string \<times> string) list \<Rightarrow> target \<Rightarrow> string list" where
  "recipients ad (ToSocket sid) = [sid]"
| "recipients ad (IoTo ch) = subscribers ad ch"
| "recipients ad (SocketTo None sid) = []"
| "recipients ad (SocketTo (Some ch) sid) = removeAll sid (subscribers ad ch)"

subsection \<open>Helpers of the server\<close>

text \<open>Truthiness of a value of type \<open>string | null | undefined\<close>.\<close>

fun truthy :: "string option \<Rightarrow> bool" where
  "truthy None = False"
| "truthy (Some s) = (s \<noteq> [])"

definition new_room :: "int \<Rightarrow> room_state" where
  "new_room now = \<lparr>members = [], socketToUser = [], hostUserId = None, currentSong = None,
     position = 0, status = ''idle'', lastSync = now\<rparr>"

definition getRoom :: "int \<Rightarrow> (string, room_state) jsmap \<Rightarrow> string
    \<Rightarrow> (string, room_state) jsmap \<times> room_state" where
  "getRoom now rs rid =
     (case jsmap_get rs rid of
        Some room \<Rightarrow> (rs, room)
      | None \<Rightarrow> (jsmap_set rs rid (new_room now), new_room now))"

definition getCurrentPosition :: "room_state \<Rightarrow> int \<Rightarrow> real" where
  "getCurrentPosition room now =
     (if status room \<noteq> ''playing'' then position room
      else position room + real_of_int (now - lastSync room) / 1000)"

definition serializeMembers :: "room_state \<Rightarrow> string \<Rightarrow> member_row list" where
  "serializeMembers room rid =
     map (\<lambda>m. (userId m, username m, rid, joinedAt m)) (jsmap_values (members room))"

definition closure_of :: "server \<Rightarrow> string \<Rightarrow> closure" where
  "closure_of st sid =
     (case jsmap_get (conns st) sid of
        Some c \<Rightarrow> c
      | None \<Rightarrow> \<lparr>currentRoomId = None, currentUserId = None\<rparr>)"

definition set_closure :: "server \<Rightarrow> string \<Rightarrow> closure \<Rightarrow> server" where
  "set_closure st sid c = st\<lparr>conns := jsmap_set (conns st) sid c\<rparr>"

text \<open>Write a room object back under its (present) key: the mutation in place.\<close>

definition put_room :: "server \<Rightarrow> string \<Rightarrow> room_state \<Rightarrow> server" where
  "put_room st rid room = st\<lparr>rooms := jsmap_set (rooms st) rid room\<rparr>"

subsection \<open>doLeave\<close>

text \<open>\<open>room.socketToUser.get(socket.id) || currentUserId\<close>\<close>

definition leave_user :: "closure \<Rightarrow> room_state \<Rightarrow> string \<Rightarrow> string option" where
  "leave_user cl room sid =
     (case jsmap_get (socketToUser room) sid of
        Some u \<Rightarrow> if u \<noteq> [] then Some u else currentUserId cl
      | None \<Rightarrow> currentUserId cl)"

text \<open>The block \<open>if (userId) { ... }\<close>.\<close>

definition remove_member :: "string \<Rightarrow> string option \<Rightarrow> room_state \<Rightarrow> room_state" where
  "remove_member sid uo room =
     (case uo of
        None \<Rightarrow> room
      | Some u \<Rightarrow>
          if u = [] then room
          else
            (let room1 =
               (case jsmap_get (members room) u of
                  Some m \<Rightarrow>
                    if socketId m = sid then room\<lparr>members := jsmap_delete (members room) u\<rparr>
                    else room
                | None \<Rightarrow> room)
             in room1\<lparr>socketToUser := jsmap_delete (socketToUser room1) sid\<rparr>))"

text \<open>The block \<open>if (room.hostUserId === userId) { ... }\<close>.\<close>

definition reassign_host :: "string \<Rightarrow> string option \<Rightarrow> room_state \<Rightarrow> room_state \<times> emit list" where
  "reassign_host rid uo room =
     (if hostUserId room = uo then
        (case jsmap_values (members room) of
           [] \<Rightarrow> (room\<lparr>hostUserId := None\<rparr>, [])
         | newHost # _ \<Rightarrow>
             (room\<lparr>hostUserId := Some (userId newHost)\<rparr>,
              [Emit (IoTo (socketId newHost)) (PromotedToHost rid)]))
      else (room, []))"

definition doLeave :: "string \<Rightarrow> server \<Rightarrow> string \<Rightarrow> server \<times> emit list" where
  "doLeave sid st rid =
     (case jsmap_get (rooms st) rid of
        None \<Rightarrow> (st, [])
      | Some room \<Rightarrow>
          (let cl = closure_of st sid;
               uo = leave_user cl room sid;
               room1 = remove_member sid uo room;
               st1 = st\<lparr>adapter := adapter_leave (adapter st) rid sid\<rparr>
           in if jsmap_size (members room1) = 0
              then (st1\<lparr>rooms := jsmap_delete (rooms st1) rid\<rparr>, [])
              else
                (let (room2, promo) = reassign_host rid uo room1;
                     st2 = put_room st1 rid room2;
                     st3 = (if Some rid = currentRoomId cl
                            then set_closure st2 sid \<lparr>currentRoomId = None, currentUserId = None\<rparr>
                            else st2)
                 in (st3, promo @
                       [Emit (IoTo rid) (MembersUpdate rid (serializeMembers room2 rid))]))))"

subsection \<open>Handlers\<close>

text \<open>
  The body of \<open>join_room\<close> from \<open>const isRejoin\<close> to the host assignment: upsert the member,
  bind the connection to the user, make the user host if there is none.
\<close>

definition upsert_member :: "string \<Rightarrow> reads \<Rightarrow> room_state \<Rightarrow> string \<Rightarrow> string option
    \<Rightarrow> room_state" where
  "upsert_member sid rd room uid uname =
     (let isRejoin = jsmap_has (members room) uid;
          m = \<lparr>userId = uid,
               username = (if truthy uname then the uname else ''Anonymous''),
               socketId = sid,
               joinedAt =
                 (if isRejoin
                  then (case jsmap_get (members room) uid of
                          Some old \<Rightarrow> joinedAt old
                        | None \<Rightarrow> tJoined rd)
                  else tJoined rd)\<rparr>;
          room1 = room\<lparr>members := jsmap_set (members room) uid m\<rparr>;
          room2 = room1\<lparr>socketToUser := jsmap_set (socketToUser room1) sid uid\<rparr>
      in if \<not> truthy (hostUserId room2) then room2\<lparr>hostUserId := Some uid\<rparr> else room2)"

text \<open>\<open>if (currentRoomId && currentRoomId !== room_id) doLeave(currentRoomId)\<close>\<close>

definition leave_previous :: "string \<Rightarrow> server \<Rightarrow> string \<Rightarrow> server \<times> emit list" where
  "leave_previous sid st rid =
     (let cl = closure_of st sid
      in if truthy (currentRoomId cl) \<and> currentRoomId cl \<noteq> Some rid
         then doLeave sid st (the (currentRoomId cl))
         else (st, []))"

definition join_room :: "string \<Rightarrow> reads \<Rightarrow> server \<Rightarrow> string option \<Rightarrow> string option
    \<Rightarrow> string option \<Rightarrow> server \<times> emit list" where
  "join_room sid rd st room_id user_id uname =
     (case (room_id, user_id) of
        (Some rid, Some uid) \<Rightarrow>
          if rid = [] \<or> uid = [] then (st, [])
          else
            (let (st1, out0) = leave_previous sid st rid;
                 st2 = set_closure st1 sid \<lparr>currentRoomId = Some rid, currentUserId = Some uid\<rparr>;
                 st3 = st2\<lparr>adapter := adapter_join (adapter st2) rid sid\<rparr>;
                 (rs, room) = getRoom (tCreate rd) (rooms st3) rid;
                 room3 = upsert_member sid rd room uid uname;
                 st4 = st3\<lparr>rooms := jsmap_set rs rid room3\<rparr>
             in (st4, out0 @
                   [Emit (IoTo rid) (MembersUpdate rid (serializeMembers room3 rid)),
                    Emit (ToSocket sid)
                      (RoomStateMsg rid (currentSong room3) (getCurrentPosition room3 (tClock rd))
                         (status room3) (tEmit rd) (serializeMembers room3 rid))]))
      | _ \<Rightarrow> (st, []))"

definition request_state :: "string \<Rightarrow> reads \<Rightarrow> server \<Rightarrow> string option \<Rightarrow> server \<times> emit list" where
  "request_state sid rd st room_id =
     (case room_id of
        None \<Rightarrow> (st, [])
      | Some rid \<Rightarrow>
          (case jsmap_get (rooms st) rid of
             None \<Rightarrow> (st, [])
           | Some room \<Rightarrow>
               (st, [Emit (ToSocket sid)
                       (RoomStateMsg rid (currentSong room) (getCurrentPosition room (tClock rd))
                          (status room) (tEmit rd) (serializeMembers room rid))])))"

text \<open>\<open>const room = rooms.get(room_id); if (room) { ... }\<close> with the assignments as \<open>f\<close>.\<close>

definition update_room :: "server \<Rightarrow> string option \<Rightarrow> (room_state \<Rightarrow> room_state) \<Rightarrow> server" where
  "update_room st room_id f =
     (case room_id of
        None \<Rightarrow> st
      | Some rid \<Rightarrow>
          (case jsmap_get (rooms st) rid of
             None \<Rightarrow> st
           | Some room \<Rightarrow> put_room st rid (f room)))"

definition sync_position :: "string \<Rightarrow> reads \<Rightarrow> server \<Rightarrow> string option \<Rightarrow> real \<Rightarrow> string
    \<Rightarrow> server \<times> emit list" where
  "sync_position sid rd st room_id p s =
     (update_room st room_id (\<lambda>room. room\<lparr>position := p, status := s, lastSync := tSync rd\<rparr>),
      [Emit (SocketTo room_id sid) (SyncPositionMsg room_id p s (tEmit rd))])"

text \<open>
  \<open>play\<close> and \<open>pause\<close> end in a log line that evaluates \<open>room_id.slice(0,8)\<close> and
  \<open>position.toFixed(2)\<close>: with either field missing the handler throws, after its
  assignments and its emit.
\<close>

definition play :: "string \<Rightarrow> reads \<Rightarrow> server \<Rightarrow> string option \<Rightarrow> real option
    \<Rightarrow> error + server \<times> emit list" where
  "play sid rd st room_id pos =
     (case (room_id, pos) of
        (Some rid, Some p) \<Rightarrow>
          Inr (update_room st room_id
                 (\<lambda>room. room\<lparr>position := p, status := ''playing'', lastSync := tSync rd\<rparr>),
               [Emit (SocketTo room_id sid) (SyncPositionMsg room_id p ''playing'' (tEmit rd))])
      | _ \<Rightarrow> Inl TypeError)"

definition pause :: "string \<Rightarrow> reads \<Rightarrow> server \<Rightarrow> string option \<Rightarrow> real option
    \<Rightarrow> error + server \<times> emit list" where
  "pause sid rd st room_id pos =
     (case (room_id, pos) of
        (Some rid, Some p) \<Rightarrow>
          Inr (update_room st room_id
                 (\<lambda>room. room\<lparr>position := p, status := ''paused'', lastSync := tSync rd\<rparr>),
               [Emit (SocketTo room_id sid) (SyncPositionMsg room_id p ''paused'' (tEmit rd))])
      | _ \<Rightarrow> Inl TypeError)"

text \<open>\<open>if (song) console.log(... room_id.slice(0,8) ...)\<close> throws when room_id is missing.\<close>

definition song_change :: "string \<Rightarrow> reads \<Rightarrow> server \<Rightarrow> string option \<Rightarrow> song option
    \<Rightarrow> error + server \<times> emit list" where
  "song_change sid rd st room_id sg =
     (if sg \<noteq> None \<and> room_id = None then Inl TypeError
      else
        Inr (update_room st room_id
               (\<lambda>room. room\<lparr>currentSong := sg, position := 0,
                   status := (if sg \<noteq> None then ''playing'' else ''idle''),
                   lastSync := tSync rd\<rparr>),
             [Emit (SocketTo room_id sid) (SongChangeMsg room_id sg)]))"

definition next_song :: "string \<Rightarrow> reads \<Rightarrow> server \<Rightarrow> string option \<Rightarrow> server \<times> emit list" where
  "next_song sid rd st room_id =
     (update_room st room_id (\<lambda>room. room\<lparr>position := 0, lastSync := tSync rd\<rparr>),
      [Emit (SocketTo room_id sid) (NextSongMsg room_id)])"

definition vote :: "string \<Rightarrow> server \<Rightarrow> vote_data \<Rightarrow> server \<times> emit list" where
  "vote sid st d =
     (if truthy (v_room_id d) then (st, [Emit (SocketTo (v_room_id d) sid) (VoteMsg d)])
      else (st, []))"

definition leave_room :: "string \<Rightarrow> server \<Rightarrow> string option \<Rightarrow> server \<times> emit list" where
  "leave_room sid st room_id =
     (case room_id of None \<Rightarrow> (st, []) | Some rid \<Rightarrow> doLeave sid st rid)"

text \<open>
  On a disconnect socket.io has removed the connection from every channel before the
  handler runs; afterwards the connection and its closure are gone.
\<close>

definition disconnect :: "string \<Rightarrow> server \<Rightarrow> server \<times> emit list" where
  "disconnect sid st =
     (let st0 = st\<lparr>adapter := adapter_leaveAll (adapter st) sid\<rparr>;
          cl = closure_of st0 sid;
          (st1, out) = (if truthy (currentRoomId cl) then doLeave sid st0 (the (currentRoomId cl))
                        else (st0, []))
      in (st1\<lparr>conns := jsmap_delete (conns st1) sid\<rparr>, out))"

definition connect :: "string \<Rightarrow> server \<Rightarrow> server" where
  "connect sid st =
     st\<lparr>conns := jsmap_set (conns st) sid \<lparr>currentRoomId = None, currentUserId = None\<rparr>,
        adapter := adapter_join (adapter st) sid sid\<rparr>"

text \<open>
  Every handler destructures its argument in the parameter list, or reads a property of
  it in its first statement (\<open>event.room_id\<close>, \<open>data.room_id\<close>): without a payload it throws
  before it has done anything.
\<close>

fun handle :: "string \<Rightarrow> reads \<Rightarrow> server \<Rightarrow> inbound \<Rightarrow> error + server \<times> emit list" where
  "handle sid rd st (JoinRoom r u n) = Inr (join_room sid rd st r u n)"
| "handle sid rd st (RequestState r) = Inr (request_state sid rd st r)"
| "handle sid rd st (SyncPosition r p s t) = Inr (sync_position sid rd st r p s)"
| "handle sid rd st (Play r p t) = play sid rd st r p"
| "handle sid rd st (Pause r p t) = pause sid rd st r p"
| "handle sid rd st (SongChange r sg) = song_change sid rd st r sg"
| "handle sid rd st (NextSong r) = Inr (next_song sid rd st r)"
| "handle sid rd st (Vote d) = Inr (vote sid st d)"
| "handle sid rd st (LeaveRoom r) = Inr (leave_room sid st r)"
| "handle sid rd st (NoPayload h) = Inl TypeError"

subsection \<open>The server as a transition system\<close>

text \<open>
  What can happen to the server: a connection is opened under an id that is not live, a
  live connection sends a message, a live connection closes. Anything else leaves the
  state as it is.
\<close>

datatype event = Connect string | Recv string reads inbound | Disconnect string

definition init :: server where
  "init = \<lparr>rooms = [], conns = [], adapter = []\<rparr>"

fun step :: "server \<Rightarrow> event \<Rightarrow> error + server \<times> emit list" where
  "step st (Connect sid) =
     (if jsmap_has (conns st) sid then Inr (st, []) else Inr (connect sid st, []))"
| "step st (Recv sid rd msg) =
     (if jsmap_has (conns st) sid then handle sid rd st msg else Inr (st, []))"
| "step st (Disconnect sid) =
     (if jsmap_has (conns st) sid then Inr (disconnect sid st) else Inr (st, []))"

text \<open>Running a trace stops at the first uncaught exception, as the process does.\<close>

fun run :: "server \<Rightarrow> event list \<Rightarrow> error + server" where
  "run st [] = Inr st"
| "run st (e # es) =
     (case step st e of
        Inl err \<Rightarrow> Inl err
      | Inr (st', out) \<Rightarrow> run st' es)"

subsection \<open>Observations and well-formedness\<close>


definition member_of :: "server \<Rightarrow> string \<Rightarrow> string \<Rightarrow> member option" where
  "member_of st rid uid =
     (case jsmap_get (rooms st) rid of None \<Rightarrow> None | Some room \<Rightarrow> jsmap_get (members room) uid)"

text \<open>
  A run of \<open>join_room\<close> messages for one room and one user; each carries the connection it
  arrives on, the clock readings of its handler and the username sent.
\<close>

fun join_all :: "server \<Rightarrow> string \<Rightarrow> string \<Rightarrow> (string \<times> reads \<times> string option) list
    \<Rightarrow> server" where
  "join_all st rid uid [] = st"
| "join_all st rid uid ((sid, rd, n) # js) =
     join_all (fst (join_room sid rd st (Some rid) (Some uid) n)) rid uid js"

text \<open>
  What every room in the table satisfies between two handlers: the keys of \<open>members\<close> are
  distinct, non-empty and equal to the \<open>userId\<close> stored under them, there is at least one
  member, and the host is the first member in enumeration order.
\<close>

definition members_ok :: "(string, member) jsmap \<Rightarrow> bool" where
  "members_ok ms =
     (distinct (map fst ms) \<and> list_all (\<lambda>e. userId (snd e) = fst e \<and> fst e \<noteq> []) ms)"

definition room_ok :: "room_state \<Rightarrow> bool" where
  "room_ok room =
     (members_ok (members room) \<and>
      (case members room of [] \<Rightarrow> False | e # _ \<Rightarrow> hostUserId room = Some (fst e)))"

definition server_ok :: "server \<Rightarrow> bool" where
  "server_ok st = list_all (\<lambda>e. room_ok (snd e)) (rooms st)"

subsection \<open>Concrete inputs\<close>

definition ex_reads :: reads where
  "ex_reads = \<lparr>tCreate = 1000, tJoined = 1001, tClock = 1002, tSync = 1003, tEmit = 1004\<rparr>"

definition ex_later :: reads where
  "ex_later = \<lparr>tCreate = 6000, tJoined = 6001, tClock = 6002, tSync = 6003, tEmit = 6004\<rparr>"

text \<open>A room that has been playing from position 10 since instant 5000.\<close>

definition ex_playing :: room_state where
  "ex_playing = \<lparr>members = [(''alice'', \<lparr>userId = ''alice'', username = ''Alice'',
       socketId = ''s1'', joinedAt = 1001\<rparr>)],
     socketToUser = [(''s1'', ''alice'')], hostUserId = Some ''alice'', currentSong = None,
     position = 10, status = ''playing'', lastSync = 5000\<rparr>"

text \<open>Two connections, nobody in a room.\<close>

definition ex_lobby :: "event list" where
  "ex_lobby = [Connect ''s1'', Connect ''s2'']"

definition ex_lobby_state :: server where
  "ex_lobby_state = \<lparr>rooms = [],
     conns = [(''s1'', \<lparr>currentRoomId = None, currentUserId = None\<rparr>),
              (''s2'', \<lparr>currentRoomId = None, currentUserId = None\<rparr>)],
     adapter = [(''s2'', ''s2''), (''s1'', ''s1'')]\<rparr>"

text \<open>Alice alone in room r1.\<close>

definition ex_alone :: "event list" where
  "ex_alone = [Connect ''s1'',
     Recv ''s1'' ex_reads (JoinRoom (Some ''r1'') (Some ''alice'') (Some ''Alice''))]"

definition ex_alice :: member where
  "ex_alice = \<lparr>userId = ''alice'', username = ''Alice'', socketId = ''s1'', joinedAt = 1001\<rparr>"

definition ex_alone_room :: room_state where
  "ex_alone_room = \<lparr>members = [(''alice'', ex_alice)],
     socketToUser = [(''s1'', ''alice'')], hostUserId = Some ''alice'',
     currentSong = None, position = 0, status = ''idle'', lastSync = 1000\<rparr>"

definition ex_alone_state :: server where
  "ex_alone_state = \<lparr>rooms = [(''r1'', ex_alone_room)],
     conns = [(''s1'', \<lparr>currentRoomId = Some ''r1'', currentUserId = Some ''alice''\<rparr>)],
     adapter = [(''r1'', ''s1''), (''s1'', ''s1'')]\<rparr>"

text \<open>Alice, the host, in room r1 from two tabs: s1 first, then s2.\<close>

definition ex_tabs :: "event list" where
  "ex_tabs = ex_alone @ [Connect ''s2'',
     Recv ''s2'' ex_later (JoinRoom (Some ''r1'') (Some ''alice'') (Some ''Alice''))]"

definition ex_tabs_state :: server where
  "ex_tabs_state = \<lparr>rooms = [(''r1'',
       \<lparr>members = [(''alice'', \<lparr>userId = ''alice'', username = ''Alice'', socketId = ''s2'',
            joinedAt = 1001\<rparr>)],
          socketToUser = [(''s1'', ''alice''), (''s2'', ''alice'')], hostUserId = Some ''alice'',
          currentSong = None, position = 0, status = ''idle'', lastSync = 1000\<rparr>)],
     conns = [(''s1'', \<lparr>currentRoomId = Some ''r1'', currentUserId = Some ''alice''\<rparr>),
              (''s2'', \<lparr>currentRoomId = Some ''r1'', currentUserId = Some ''alice''\<rparr>)],
     adapter = [(''r1'', ''s2''), (''s2'', ''s2''), (''r1'', ''s1''), (''s1'', ''s1'')]\<rparr>"

text \<open>
  The same, after the newer tab s2 has sent \<open>leave_room\<close>: the room is deleted while s1,
  which never left, is still subscribed to the channel r1.
\<close>

definition ex_stale :: "event list" where
  "ex_stale = ex_tabs @ [Recv ''s2'' ex_later (LeaveRoom (Some ''r1''))]"

definition ex_stale_state :: server where
  "ex_stale_state = \<lparr>rooms = [],
     conns = [(''s1'', \<lparr>currentRoomId = Some ''r1'', currentUserId = Some ''alice''\<rparr>),
              (''s2'', \<lparr>currentRoomId = Some ''r1'', currentUserId = Some ''alice''\<rparr>)],
     adapter = [(''s2'', ''s2''), (''r1'', ''s1''), (''s1'', ''s1'')]\<rparr>"



text \<open>Alice (s1, host) and Bob (s2) in room r1.\<close>

definition ex_bob :: member where
  "ex_bob = \<lparr>userId = ''bob'', username = ''Bob'', socketId = ''s2'', joinedAt = 6001\<rparr>"

definition ex_pair :: "event list" where
  "ex_pair = ex_alone @ [Connect ''s2'',
     Recv ''s2'' ex_later (JoinRoom (Some ''r1'') (Some ''bob'') (Some ''Bob''))]"

definition ex_pair_room :: room_state where
  "ex_pair_room = \<lparr>members = [(''alice'', ex_alice), (''bob'', ex_bob)],
     socketToUser = [(''s1'', ''alice''), (''s2'', ''bob'')], hostUserId = Some ''alice'',
     currentSong = None, position = 0, status = ''idle'', lastSync = 1000\<rparr>"

definition ex_pair_state :: server where
  "ex_pair_state = \<lparr>rooms = [(''r1'', ex_pair_room)],
     conns = [(''s1'', \<lparr>currentRoomId = Some ''r1'', currentUserId = Some ''alice''\<rparr>),
              (''s2'', \<lparr>currentRoomId = Some ''r1'', currentUserId = Some ''bob''\<rparr>)],
     adapter = [(''r1'', ''s2''), (''s2'', ''s2''), (''r1'', ''s1''), (''s1'', ''s1'')]\<rparr>"

section \<open>Properties\<close>

subsection \<open>Evaluation of the concrete inputs\<close>

lemmas model_defs = init_def connect_def join_room_def upsert_member_def leave_previous_def
  jsmap_has_def jsmap_get_def closure_of_def set_closure_def adapter_join_def adapter_leave_def
  adapter_leaveAll_def getRoom_def new_room_def serializeMembers_def jsmap_values_def
  getCurrentPosition_def doLeave_def leave_user_def remove_member_def reassign_host_def
  put_room_def jsmap_delete_def jsmap_size_def disconnect_def leave_room_def request_state_def
  update_room_def sync_position_def play_def pause_def song_change_def next_song_def
  vote_def subscribers_def

lemmas ex_defs = ex_reads_def ex_later_def ex_lobby_def ex_lobby_state_def ex_alone_def
  ex_alice_def ex_alone_room_def ex_alone_state_def ex_tabs_def ex_tabs_state_def
  ex_bob_def ex_pair_def ex_pair_room_def ex_pair_state_def

lemma run_append:
  "run st (es @ es') = (case run st es of Inl e \<Rightarrow> Inl e | Inr st' \<Rightarrow> run st' es')"
  by (induction es arbitrary: st) (auto split: sum.splits)

lemma run_ex_lobby: "run init ex_lobby = Inr ex_lobby_state"
  by (simp add: ex_defs model_defs)

lemma run_ex_alone: "run init ex_alone = Inr ex_alone_state"
  by (simp add: ex_defs model_defs Let_def)

lemma run_ex_tabs: "run init ex_tabs = Inr ex_tabs_state"
  unfolding ex_tabs_def run_append run_ex_alone
  by (simp add: ex_defs model_defs Let_def)

lemma run_ex_stale: "run init ex_stale = Inr ex_stale_state"
  unfolding ex_stale_def run_append run_ex_tabs
  by (simp add: ex_defs ex_stale_state_def model_defs Let_def)


lemma run_ex_pair: "run init ex_pair = Inr ex_pair_state"
  unfolding ex_pair_def run_append run_ex_alone
  by (simp add: ex_defs model_defs Let_def)

subsection \<open>Maps\<close>

lemma jsmap_get_set: "jsmap_get (jsmap_set m k v) k' = (if k' = k then Some v else jsmap_get m k')"
  by (induction m) (auto simp: jsmap_get_def)

lemma jsmap_get_delete: "jsmap_get (jsmap_delete m k) k' = (if k' = k then None else jsmap_get m k')"
  by (induction m) (auto simp: jsmap_get_def jsmap_delete_def)

lemma jsmap_set_set: "jsmap_set (jsmap_set m k v) k w = jsmap_set m k w"
  by (induction m) auto

lemma jsmap_get_in: "jsmap_get m k = Some v \<Longrightarrow> (k, v) \<in> set m"
  by (simp add: jsmap_get_def map_of_SomeD)

lemma list_all_jsmap_set: "list_all P m \<Longrightarrow> P (k, v) \<Longrightarrow> list_all P (jsmap_set m k v)"
  by (induction m) auto

lemma list_all_jsmap_delete: "list_all P m \<Longrightarrow> list_all P (jsmap_delete m k)"
  by (simp add: jsmap_delete_def list_all_iff)

lemma list_all_jsmap_get: "list_all P m \<Longrightarrow> jsmap_get m k = Some v \<Longrightarrow> P (k, v)"
  by (auto simp: list_all_iff dest: jsmap_get_in)

lemma keys_jsmap_set:
  "map fst (jsmap_set m k v) = (if k \<in> fst ` set m then map fst m else map fst m @ [k])"
  by (induction m) (force split: if_splits)+

lemma distinct_jsmap_set: "distinct (map fst m) \<Longrightarrow> distinct (map fst (jsmap_set m k v))"
  by (simp add: keys_jsmap_set)

lemma jsmap_set_Cons: "\<exists>e' ms'. jsmap_set (e # ms) k v = e' # ms' \<and> fst e' = fst e"
  by (cases e) auto

lemma jsmap_delete_not_hd: "k \<noteq> fst e \<Longrightarrow> jsmap_delete (e # m) k = e # jsmap_delete m k"
  by (auto simp: jsmap_delete_def)

lemma jsmap_delete_Cons: "jsmap_delete ms u = (k, v) # rest \<Longrightarrow> (k, v) \<in> set ms"
proof -
  assume "jsmap_delete ms u = (k, v) # rest"
  then have "(k, v) \<in> set (filter (\<lambda>e. fst e \<noteq> u) ms)"
    by (simp add: jsmap_delete_def)
  then show ?thesis by simp
qed

lemma count_distinct_key:
  "distinct (map fst ms) \<Longrightarrow> jsmap_get ms k = Some v \<Longrightarrow> length (filter (\<lambda>e. fst e = k) ms) = 1"
proof (induction ms)
  case Nil
  then show ?case by (simp add: jsmap_get_def)
next
  case (Cons e ms)
  show ?case
  proof (cases "fst e = k")
    case True
    then have "k \<notin> fst ` set ms" using Cons.prems(1) by auto
    then have "filter (\<lambda>e. fst e = k) ms = []"
      by (auto simp: filter_empty_conv)
    with True show ?thesis by simp
  next
    case False
    then show ?thesis
      using Cons by (cases e) (auto simp: jsmap_get_def)
  qed
qed

lemma members_ok_set:
  "members_ok ms \<Longrightarrow> userId m = u \<Longrightarrow> u \<noteq> [] \<Longrightarrow> members_ok (jsmap_set ms u m)"
  by (simp add: members_ok_def distinct_jsmap_set list_all_jsmap_set)

lemma members_ok_delete: "members_ok ms \<Longrightarrow> members_ok (jsmap_delete ms u)"
  by (simp add: members_ok_def jsmap_delete_def distinct_map_filter list_all_iff)

subsection \<open>The playback clock\<close>

text \<open>
  C1 (as amended). The clock read returns the stored position when the status is not
  \<open>playing\<close>; when it is, it returns the stored position plus the milliseconds between
  \<open>lastSync\<close> and the reading, divided by 1000. Nothing clamps the elapsed term: the result
  is at least the stored position when the reading is not before \<open>lastSync\<close>. The read
  changes nothing: a \<open>request_state\<close>, which performs it, returns the state it was given.
\<close>

theorem getCurrentPosition_extrapolates:
  "getCurrentPosition room now =
     (if status room = ''playing'' then position room + real_of_int (now - lastSync room) / 1000
      else position room)
   \<and> (lastSync room \<le> now \<longrightarrow> position room \<le> getCurrentPosition room now)
   \<and> fst (request_state sid rd st r) = st"
  by (simp add: getCurrentPosition_def request_state_def split: option.splits)

theorem getCurrentPosition_extrapolates_witness:
  "lastSync ex_playing \<le> 8000 \<and> getCurrentPosition ex_playing 8000 = 13
   \<and> position ex_playing \<le> getCurrentPosition ex_playing 8000
   \<and> fst (request_state ''s1'' ex_reads ex_alone_state (Some ''r1'')) = ex_alone_state"
  using getCurrentPosition_extrapolates
    [of ex_playing 8000 "''s1''" ex_reads ex_alone_state "Some ''r1''"]
  by (simp add: ex_playing_def)

text \<open>
  With a reading before \<open>lastSync\<close> (the wall clock was set back) a playing room reads
  below its stored position.
\<close>

theorem getCurrentPosition_not_clamped:
  "status ex_playing = ''playing'' \<and> getCurrentPosition ex_playing 3000 = 8
   \<and> getCurrentPosition ex_playing 3000 < position ex_playing"
  by (simp add: ex_playing_def getCurrentPosition_def)

subsection \<open>Transport control\<close>

text \<open>
  C5. A \<open>play\<close> for a room in the table stores the position sent, the status \<open>playing\<close> and
  the server's clock reading as \<open>lastSync\<close>, and emits one \<open>sync_position\<close> with that
  position, status \<open>playing\<close> and the server's clock reading as \<open>server_time\<close>. The timestamp
  \<open>ct\<close> in the client's payload appears nowhere in the result. The message goes out with
  \<open>socket.to(room)\<close>: it reaches exactly the connections subscribed to the room other than
  the sender.
\<close>

theorem play_updates_and_relays:
  "jsmap_get (rooms st) rid = Some room \<Longrightarrow>
   handle sid rd st (Play (Some rid) (Some p) ct) =
     Inr (put_room st rid (room\<lparr>position := p, status := ''playing'', lastSync := tSync rd\<rparr>),
          [Emit (SocketTo (Some rid) sid) (SyncPositionMsg (Some rid) p ''playing'' (tEmit rd))])
   \<and> jsmap_get (rooms (put_room st rid
          (room\<lparr>position := p, status := ''playing'', lastSync := tSync rd\<rparr>))) rid
       = Some (room\<lparr>position := p, status := ''playing'', lastSync := tSync rd\<rparr>)
   \<and> adapter (put_room st rid
          (room\<lparr>position := p, status := ''playing'', lastSync := tSync rd\<rparr>)) = adapter st
   \<and> set (recipients (adapter st) (SocketTo (Some rid) sid))
       = set (subscribers (adapter st) rid) - {sid}"
  by (simp add: play_def update_room_def put_room_def jsmap_get_set)

theorem play_updates_and_relays_witness:
  "jsmap_get (rooms ex_pair_state) ''r1'' = Some ex_pair_room
   \<and> handle ''s1'' ex_later ex_pair_state (Play (Some ''r1'') (Some 42.5) (Some 77)) =
       Inr (ex_pair_state\<lparr>rooms :=
              [(''r1'', ex_pair_room\<lparr>position := 42.5, status := ''playing'', lastSync := 6003\<rparr>)]\<rparr>,
            [Emit (SocketTo (Some ''r1'') ''s1'')
               (SyncPositionMsg (Some ''r1'') 42.5 ''playing'' 6004)])
   \<and> set (recipients (adapter ex_pair_state) (SocketTo (Some ''r1'') ''s1'')) = {''s2''}"
proof -
  have r: "jsmap_get (rooms ex_pair_state) ''r1'' = Some ex_pair_room"
    by (simp add: ex_pair_state_def jsmap_get_def)
  from play_updates_and_relays [OF r, of "''s1''" ex_later "42.5" "Some 77"] r
  show ?thesis
    by (auto simp: ex_later_def ex_pair_state_def put_room_def subscribers_def)
qed

text \<open>
  C10 (as amended). A \<open>play\<close>, \<open>pause\<close>, \<open>sync_position\<close>, \<open>song_change\<close> or \<open>next_song\<close> that
  carries its fields and names a room id that is not in the table, and a \<open>vote\<close> that names
  such a room id and the id is not empty, leaves the whole state as it is and emits exactly
  one relay message with \<open>socket.to(room id)\<close>, which reaches every connection subscribed to
  that channel other than the sender. Nothing says that the channel has no subscribers.
\<close>

theorem relay_for_unknown_room:
  "jsmap_get (rooms st) rid = None \<Longrightarrow>
   handle sid rd st (Play (Some rid) (Some p) ct) =
     Inr (st, [Emit (SocketTo (Some rid) sid) (SyncPositionMsg (Some rid) p ''playing'' (tEmit rd))])
   \<and> handle sid rd st (Pause (Some rid) (Some p) ct) =
     Inr (st, [Emit (SocketTo (Some rid) sid) (SyncPositionMsg (Some rid) p ''paused'' (tEmit rd))])
   \<and> handle sid rd st (SyncPosition (Some rid) p s ct) =
     Inr (st, [Emit (SocketTo (Some rid) sid) (SyncPositionMsg (Some rid) p s (tEmit rd))])
   \<and> handle sid rd st (SongChange (Some rid) sg) =
     Inr (st, [Emit (SocketTo (Some rid) sid) (SongChangeMsg (Some rid) sg)])
   \<and> handle sid rd st (NextSong (Some rid)) =
     Inr (st, [Emit (SocketTo (Some rid) sid) (NextSongMsg (Some rid))])
   \<and> (rid \<noteq> [] \<longrightarrow> handle sid rd st (Vote (VoteData (Some rid) a b c)) =
     Inr (st, [Emit (SocketTo (Some rid) sid) (VoteMsg (VoteData (Some rid) a b c))]))
   \<and> set (recipients (adapter st) (SocketTo (Some rid) sid))
       = set (subscribers (adapter st) rid) - {sid}"
  by (simp add: play_def pause_def sync_position_def song_change_def next_song_def vote_def
      update_room_def)

theorem relay_for_unknown_room_witness:
  "jsmap_get (rooms ex_alone_state) ''r9'' = None \<and> ''r9'' \<noteq> []
   \<and> handle ''s1'' ex_later ex_alone_state (Play (Some ''r9'') (Some 5) None) =
       Inr (ex_alone_state,
            [Emit (SocketTo (Some ''r9'') ''s1'') (SyncPositionMsg (Some ''r9'') 5 ''playing'' 6004)])
   \<and> handle ''s1'' ex_later ex_alone_state (Vote (VoteData (Some ''r9'') None None None)) =
       Inr (ex_alone_state,
            [Emit (SocketTo (Some ''r9'') ''s1'') (VoteMsg (VoteData (Some ''r9'') None None None))])
   \<and> set (recipients (adapter ex_alone_state) (SocketTo (Some ''r9'') ''s1'')) = {}"
proof -
  have r: "jsmap_get (rooms ex_alone_state) ''r9'' = None"
    by (simp add: ex_defs jsmap_get_def)
  from relay_for_unknown_room [OF r, of "''s1''" ex_later 5 None] r show ?thesis
    by (simp add: ex_later_def) (simp add: ex_defs subscribers_def)
qed

text \<open>
  The room r1 has been deleted, yet the relay of a \<open>play\<close> naming it is delivered: to the
  older tab, which is still subscribed.
\<close>

theorem relay_reaches_stale_subscriber:
  "run init ex_stale = Inr ex_stale_state
   \<and> \<not> jsmap_has (rooms ex_stale_state) ''r1''
   \<and> handle ''s2'' ex_later ex_stale_state (Play (Some ''r1'') (Some 5) None) =
       Inr (ex_stale_state,
            [Emit (SocketTo (Some ''r1'') ''s2'') (SyncPositionMsg (Some ''r1'') 5 ''playing'' 6004)])
   \<and> recipients (adapter ex_stale_state) (SocketTo (Some ''r1'') ''s2'') = [''s1'']"
  by (simp add: run_ex_stale) (simp add: ex_stale_state_def ex_later_def model_defs)

text \<open>
  C8 (the code at the failing input). A heartbeat whose status is the string \<open>bogus\<close>,
  sent to a room in the table, leaves that string in the room's \<open>status\<close>.
\<close>

theorem sync_position_stores_any_status:
  "run init (ex_alone @ [Recv ''s1'' ex_later (SyncPosition (Some ''r1'') 7 ''bogus'' None)]) =
     Inr (ex_alone_state\<lparr>rooms :=
            [(''r1'', ex_alone_room\<lparr>position := 7, status := ''bogus'', lastSync := 6003\<rparr>)]\<rparr>)"
  unfolding run_append run_ex_alone
  by (simp add: ex_defs model_defs)

subsection \<open>Messages with missing fields\<close>

text \<open>
  C7 (as amended). Let a message carry a payload object from which an id is missing. A
  \<open>join_room\<close> whose \<open>room_id\<close> or \<open>user_id\<close> is missing or empty, a \<open>request_state\<close> or
  \<open>leave_room\<close> without \<open>room_id\<close>, and a \<open>vote\<close> whose \<open>room_id\<close> is missing or empty are
  dropped: the handler returns normally, the state is the one before, nothing is emitted.
  A \<open>next_song\<close>, a \<open>sync_position\<close> and a \<open>song_change\<close> to no song without \<open>room_id\<close>
  return normally and leave the state as it is; their one relay goes to the channel
  \<open>undefined\<close> and is delivered to no connection.
\<close>

theorem malformed_ids_dropped:
  "(\<not> truthy room_id \<or> \<not> truthy user_id \<longrightarrow>
      handle sid rd st (JoinRoom room_id user_id n) = Inr (st, []))
   \<and> handle sid rd st (RequestState None) = Inr (st, [])
   \<and> handle sid rd st (LeaveRoom None) = Inr (st, [])
   \<and> (\<not> truthy (v_room_id d) \<longrightarrow> handle sid rd st (Vote d) = Inr (st, []))
   \<and> handle sid rd st (NextSong None) = Inr (st, [Emit (SocketTo None sid) (NextSongMsg None)])
   \<and> handle sid rd st (SyncPosition None p s ct) =
       Inr (st, [Emit (SocketTo None sid) (SyncPositionMsg None p s (tEmit rd))])
   \<and> handle sid rd st (SongChange None None) =
       Inr (st, [Emit (SocketTo None sid) (SongChangeMsg None None)])
   \<and> recipients (adapter st) (SocketTo None sid) = []"
  by (cases room_id; cases user_id)
     (auto simp: join_room_def request_state_def leave_room_def vote_def next_song_def
        sync_position_def song_change_def update_room_def)

theorem malformed_ids_dropped_witness:
  "\<not> truthy None
   \<and> handle ''s1'' ex_later ex_alone_state (JoinRoom None (Some ''bob'') (Some ''Bob'')) =
       Inr (ex_alone_state, [])
   \<and> \<not> truthy (Some [])
   \<and> handle ''s1'' ex_later ex_alone_state (JoinRoom (Some ''r1'') (Some []) (Some ''Bob'')) =
       Inr (ex_alone_state, [])
   \<and> \<not> truthy (v_room_id (VoteData None (Some ''p1'') (Some ''alice'') (Some ''t1'')))
   \<and> handle ''s1'' ex_later ex_alone_state
         (Vote (VoteData None (Some ''p1'') (Some ''alice'') (Some ''t1''))) =
       Inr (ex_alone_state, [])
   \<and> handle ''s1'' ex_later ex_alone_state (NextSong None) =
       Inr (ex_alone_state, [Emit (SocketTo None ''s1'') (NextSongMsg None)])
   \<and> recipients (adapter ex_alone_state) (SocketTo None ''s1'') = []"
  using malformed_ids_dropped [of None "Some ''bob''" "''s1''" ex_later ex_alone_state
      "Some ''Bob''" "VoteData None (Some ''p1'') (Some ''alice'') (Some ''t1'')"]
    malformed_ids_dropped [of "Some ''r1''" "Some []" "''s1''" ex_later ex_alone_state
      "Some ''Bob''"]
  by simp

text \<open>
  A \<open>join_room\<close> without \<open>username\<close> is not dropped: the member is stored under the name
  \<open>Anonymous\<close> and the sender gets a \<open>room_state\<close>. A \<open>play\<close> without \<open>position\<close>, and a
  \<open>join_room\<close> without a payload, end in an uncaught TypeError.
\<close>

theorem missing_field_not_dropped:
  "handle ''s1'' ex_later ex_alone_state (JoinRoom (Some ''r1'') (Some ''alice'') None) =
     Inr (ex_alone_state\<lparr>rooms :=
            [(''r1'', ex_alone_room\<lparr>members := [(''alice'', ex_alice\<lparr>username := ''Anonymous''\<rparr>)]\<rparr>)]\<rparr>,
          [Emit (IoTo ''r1'') (MembersUpdate ''r1'' [(''alice'', ''Anonymous'', ''r1'', 1001)]),
           Emit (ToSocket ''s1'')
             (RoomStateMsg ''r1'' None 0 ''idle'' 6004 [(''alice'', ''Anonymous'', ''r1'', 1001)])])
   \<and> jsmap_has (rooms ex_alone_state) ''r1''
   \<and> handle ''s1'' ex_later ex_alone_state (Play (Some ''r1'') None None) = Inl TypeError
   \<and> handle ''s1'' ex_later ex_alone_state (NoPayload OnJoinRoom) = Inl TypeError"
  by (simp add: ex_defs model_defs Let_def)

subsection \<open>The rooms stay well-formed\<close>

lemma remove_member_cases:
  "hostUserId (remove_member sid uo room) = hostUserId room \<and>
   (members (remove_member sid uo room) = members room \<or>
    (\<exists>u m. uo = Some u \<and> u \<noteq> [] \<and> jsmap_get (members room) u = Some m \<and> socketId m = sid
       \<and> members (remove_member sid uo room) = jsmap_delete (members room) u))"
  by (auto simp: remove_member_def Let_def split: option.splits)

lemma reassign_host_ok:
  assumes "members_ok (members r)" and "members r \<noteq> []"
    and "hostUserId r = Some (fst (hd (members r))) \<or> hostUserId r = uo"
  shows "room_ok (fst (reassign_host rid uo r))"
proof (cases "members r")
  case Nil
  with assms(2) show ?thesis by simp
next
  case (Cons e ms)
  with assms(1) have "userId (snd e) = fst e"
    by (simp add: members_ok_def)
  with Cons assms(1,3) show ?thesis
    by (auto simp: reassign_host_def room_ok_def jsmap_values_def)
qed

lemma remove_then_reassign_ok:
  assumes ok: "room_ok room" and ne: "members (remove_member sid uo room) \<noteq> []"
  shows "room_ok (fst (reassign_host rid uo (remove_member sid uo room)))"
proof -
  let ?r1 = "remove_member sid uo room"
  obtain e ms where ms: "members room = e # ms" and host: "hostUserId room = Some (fst e)"
    using ok by (auto simp: room_ok_def split: list.splits)
  have mok: "members_ok (members room)" using ok by (simp add: room_ok_def)
  have h1: "hostUserId ?r1 = hostUserId room"
    using remove_member_cases [of sid uo room] by simp
  consider (same) "members ?r1 = members room"
    | (del) u where "uo = Some u" "members ?r1 = jsmap_delete (members room) u"
    using remove_member_cases [of sid uo room] by blast
  then show ?thesis
  proof cases
    case same
    then show ?thesis
      using mok ms host h1 by (intro reassign_host_ok) auto
  next
    case del
    have mok1: "members_ok (members ?r1)"
      using del mok by (simp add: members_ok_delete)
    show ?thesis
    proof (cases "u = fst e")
      case True
      then show ?thesis
        using mok1 ne h1 host del by (intro reassign_host_ok) auto
    next
      case False
      then have "members ?r1 = e # jsmap_delete ms u"
        using del ms by (simp add: jsmap_delete_not_hd)
      then show ?thesis
        using mok1 h1 host by (intro reassign_host_ok) auto
    qed
  qed
qed

lemma rooms_set_closure [simp]: "rooms (set_closure st sid c) = rooms st"
  by (simp add: set_closure_def)

lemma rooms_put_room [simp]: "rooms (put_room st rid r) = jsmap_set (rooms st) rid r"
  by (simp add: put_room_def)

lemma doLeave_rooms:
  "rooms (fst (doLeave sid st rid)) =
     (case jsmap_get (rooms st) rid of
        None \<Rightarrow> rooms st
      | Some room \<Rightarrow>
          (let uo = leave_user (closure_of st sid) room sid;
               room1 = remove_member sid uo room
           in if members room1 = [] then jsmap_delete (rooms st) rid
              else jsmap_set (rooms st) rid (fst (reassign_host rid uo room1))))"
  by (simp add: doLeave_def Let_def jsmap_size_def split: option.splits prod.splits)

lemma doLeave_out:
  "snd (doLeave sid st rid) =
     (case jsmap_get (rooms st) rid of
        None \<Rightarrow> []
      | Some room \<Rightarrow>
          (let uo = leave_user (closure_of st sid) room sid;
               room1 = remove_member sid uo room
           in if members room1 = [] then []
              else snd (reassign_host rid uo room1) @
                [Emit (IoTo rid)
                   (MembersUpdate rid (serializeMembers (fst (reassign_host rid uo room1)) rid))]))"
  by (simp add: doLeave_def Let_def jsmap_size_def split: option.splits prod.splits)

lemma closure_of_adapter [simp]: "closure_of (st\<lparr>adapter := a\<rparr>) sid = closure_of st sid"
  by (simp add: closure_of_def)

text \<open>A disconnect from inside a room does to the table, and emits, what \<open>doLeave\<close> does.\<close>

lemma disconnect_doLeave:
  assumes "rid \<noteq> []" and "currentRoomId (closure_of st sid) = Some rid"
  shows "rooms (fst (disconnect sid st)) = rooms (fst (doLeave sid st rid))
       \<and> snd (disconnect sid st) = snd (doLeave sid st rid)"
proof -
  let ?st0 = "st\<lparr>adapter := adapter_leaveAll (adapter st) sid\<rparr>"
  have "disconnect sid st =
      ((fst (doLeave sid ?st0 rid))\<lparr>conns := jsmap_delete (conns (fst (doLeave sid ?st0 rid))) sid\<rparr>,
       snd (doLeave sid ?st0 rid))"
    using assms by (simp add: disconnect_def Let_def split: prod.splits)
  then show ?thesis
    by (auto simp: doLeave_rooms doLeave_out Let_def split: option.splits)
qed

lemma doLeave_ok_fst: "server_ok st \<Longrightarrow> server_ok (fst (doLeave sid st rid))"
  unfolding server_ok_def doLeave_rooms
  by (auto simp: Let_def list_all_jsmap_delete split: option.splits
      intro!: list_all_jsmap_set remove_then_reassign_ok dest: list_all_jsmap_get)

lemma doLeave_ok: "server_ok st \<Longrightarrow> doLeave sid st rid = (st', out) \<Longrightarrow> server_ok st'"
  using doLeave_ok_fst [of st sid rid] by simp

lemma doLeave_other:
  "rid' \<noteq> rid \<Longrightarrow> jsmap_get (rooms (fst (doLeave sid st rid))) rid' = jsmap_get (rooms st) rid'"
  by (simp add: doLeave_rooms Let_def jsmap_get_set jsmap_get_delete split: option.splits)

lemma leave_previous_ok: "server_ok st \<Longrightarrow> server_ok (fst (leave_previous sid st rid))"
  by (simp add: leave_previous_def Let_def doLeave_ok_fst)

lemma leave_previous_same:
  "jsmap_get (rooms (fst (leave_previous sid st rid))) rid = jsmap_get (rooms st) rid"
proof (cases "currentRoomId (closure_of st sid)")
  case None
  then show ?thesis by (simp add: leave_previous_def)
next
  case (Some cr)
  then show ?thesis
    by (cases "cr = rid") (simp_all add: leave_previous_def doLeave_other)
qed

lemma join_room_rooms:
  assumes "rid \<noteq> []" and "uid \<noteq> []"
  shows "rooms (fst (join_room sid rd st (Some rid) (Some uid) n)) =
     jsmap_set (rooms (fst (leave_previous sid st rid))) rid
       (upsert_member sid rd
          (case jsmap_get (rooms st) rid of Some r \<Rightarrow> r | None \<Rightarrow> new_room (tCreate rd)) uid n)"
  using assms leave_previous_same [of sid st rid]
  by (auto simp: join_room_def getRoom_def Let_def jsmap_set_set split: prod.splits option.splits)

lemma upsert_member_members:
  "members (upsert_member sid rd room uid n) =
     jsmap_set (members room) uid
       \<lparr>userId = uid, username = (if truthy n then the n else ''Anonymous''), socketId = sid,
        joinedAt = (case jsmap_get (members room) uid of
                      Some old \<Rightarrow> joinedAt old
                    | None \<Rightarrow> tJoined rd)\<rparr>"
  by (auto simp: upsert_member_def Let_def jsmap_has_def jsmap_get_def split: option.splits)

lemma upsert_member_host:
  "hostUserId (upsert_member sid rd room uid n) =
     (if truthy (hostUserId room) then hostUserId room else Some uid)"
  by (simp add: upsert_member_def Let_def)

lemma upsert_member_ok:
  assumes "room_ok room \<or> room = new_room t" and "uid \<noteq> []"
  shows "room_ok (upsert_member sid rd room uid n)"
proof -
  define m where "m = \<lparr>userId = uid, username = (if truthy n then the n else ''Anonymous''),
    socketId = sid,
    joinedAt = (case jsmap_get (members room) uid of Some old \<Rightarrow> joinedAt old | None \<Rightarrow> tJoined rd)\<rparr>"
  have m: "userId m = uid" by (simp add: m_def)
  have mem: "members (upsert_member sid rd room uid n) = jsmap_set (members room) uid m"
    unfolding m_def by (rule upsert_member_members)
  from assms(1) show ?thesis
  proof
    assume "room = new_room t"
    then show ?thesis
      using assms(2) m mem
      by (simp add: upsert_member_host new_room_def room_ok_def members_ok_def)
  next
    assume ok: "room_ok room"
    then obtain e ms where ms: "members room = e # ms" and host: "hostUserId room = Some (fst e)"
      by (auto simp: room_ok_def split: list.splits)
    have mok: "members_ok (members room)" using ok by (simp add: room_ok_def)
    then have "fst e \<noteq> []" using ms by (simp add: members_ok_def)
    then have h: "hostUserId (upsert_member sid rd room uid n) = Some (fst e)"
      using host by (simp add: upsert_member_host)
    obtain e' ms' where "jsmap_set (members room) uid m = e' # ms'" "fst e' = fst e"
      using jsmap_set_Cons [of e ms uid m] ms by auto
    then show ?thesis
      using h mem mok m assms(2) members_ok_set [of "members room" m uid]
      by (simp add: room_ok_def)
  qed
qed

lemma join_room_ok: "server_ok st \<Longrightarrow> server_ok (fst (join_room sid rd st r u n))"
proof (cases "truthy r \<and> truthy u")
  case False
  assume "server_ok st"
  with False show ?thesis
    by (cases r; cases u) (auto simp: join_room_def)
next
  case True
  assume ok: "server_ok st"
  from True obtain rid uid where [simp]: "r = Some rid" "u = Some uid" and ne: "rid \<noteq> []" "uid \<noteq> []"
    by (cases r; cases u) auto
  have "room_ok (upsert_member sid rd
          (case jsmap_get (rooms st) rid of Some r \<Rightarrow> r | None \<Rightarrow> new_room (tCreate rd)) uid n)"
    using ok ne
    by (intro upsert_member_ok [where t = "tCreate rd"])
       (auto simp: server_ok_def split: option.splits dest: list_all_jsmap_get)
  then show ?thesis
    using leave_previous_ok [OF ok, of sid rid] ne
    by (simp add: join_room_rooms server_ok_def list_all_jsmap_set)
qed

lemma update_room_ok:
  assumes "server_ok st"
    and "\<And>room. members (f room) = members room"
    and "\<And>room. hostUserId (f room) = hostUserId room"
  shows "server_ok (update_room st r f)"
proof -
  have "room_ok (f room)" if "room_ok room" for room
    using that assms(2,3) by (auto simp: room_ok_def split: list.splits)
  then show ?thesis
    using assms(1)
    by (auto simp: update_room_def server_ok_def split: option.splits
        intro!: list_all_jsmap_set dest: list_all_jsmap_get)
qed

lemma handle_ok: "server_ok st \<Longrightarrow> handle sid rd st msg = Inr (st', out) \<Longrightarrow> server_ok st'"
proof (cases msg)
  case (JoinRoom r u n)
  assume "server_ok st" "handle sid rd st msg = Inr (st', out)"
  with JoinRoom show ?thesis
    using join_room_ok [of st sid rd r u n] by auto
next
  case (LeaveRoom r)
  assume "server_ok st" "handle sid rd st msg = Inr (st', out)"
  with LeaveRoom show ?thesis
    by (cases r) (auto simp: leave_room_def dest: doLeave_ok)
qed (auto simp: request_state_def sync_position_def play_def pause_def song_change_def
      next_song_def vote_def update_room_ok split: option.splits if_splits)

lemma disconnect_ok: "server_ok st \<Longrightarrow> server_ok (fst (disconnect sid st))"
proof -
  assume ok: "server_ok st"
  let ?st0 = "st\<lparr>adapter := adapter_leaveAll (adapter st) sid\<rparr>"
  have "server_ok ?st0" using ok by (simp add: server_ok_def)
  then have "server_ok st1" if "doLeave sid ?st0 rid = (st1, out)" for rid st1 out
    using that by (rule doLeave_ok)
  then have "list_all (\<lambda>e. room_ok (snd e)) (rooms st1)"
    if "doLeave sid ?st0 rid = (st1, out)" for rid st1 out
    using that by (auto simp: server_ok_def)
  with ok show ?thesis
    by (auto simp: disconnect_def Let_def server_ok_def split: prod.splits)
qed

lemma step_ok: "server_ok st \<Longrightarrow> step st e = Inr (st', out) \<Longrightarrow> server_ok st'"
proof (cases e)
  case (Connect sid)
  assume "server_ok st" "step st e = Inr (st', out)"
  with Connect show ?thesis
    by (auto simp: connect_def server_ok_def split: if_splits)
next
  case (Recv sid rd msg)
  assume "server_ok st" "step st e = Inr (st', out)"
  with Recv show ?thesis
    by (auto split: if_splits dest: handle_ok)
next
  case (Disconnect sid)
  assume "server_ok st" "step st e = Inr (st', out)"
  with Disconnect show ?thesis
    using disconnect_ok [of st sid] by (auto split: if_splits)
qed

lemma run_ok: "server_ok st \<Longrightarrow> run st es = Inr st' \<Longrightarrow> server_ok st'"
proof (induction es arbitrary: st)
  case Nil
  then show ?case by simp
next
  case (Cons e es)
  then show ?case
    by (auto split: sum.splits dest: step_ok)
qed

lemma reachable_ok: "run init es = Inr st \<Longrightarrow> server_ok st"
  by (rule run_ok [of init]) (simp_all add: server_ok_def init_def)

lemma reachable_room_ok:
  "run init es = Inr st \<Longrightarrow> jsmap_get (rooms st) rid = Some room \<Longrightarrow> room_ok room"
  using reachable_ok [of es st] list_all_jsmap_get [of "\<lambda>e. room_ok (snd e)" "rooms st" rid room]
  by (simp add: server_ok_def)

subsection \<open>Rooms exist exactly while they have members\<close>


lemma join_member:
  assumes "rid \<noteq> []" and "uid \<noteq> []"
  shows "member_of (fst (join_room sid rd st (Some rid) (Some uid) n)) rid uid =
     Some \<lparr>userId = uid, username = (if truthy n then the n else ''Anonymous''), socketId = sid,
        joinedAt = (case member_of st rid uid of Some old \<Rightarrow> joinedAt old | None \<Rightarrow> tJoined rd)\<rparr>"
  using assms
  by (simp add: member_of_def join_room_rooms jsmap_get_set upsert_member_members split: option.splits)
     (simp add: new_room_def jsmap_get_def)






subsection \<open>The host\<close>

lemma room_ok_host:
  assumes "room_ok room" and "hostUserId room = Some h"
  shows "\<exists>m. jsmap_get (members room) h = Some m \<and> userId m = h"
proof -
  from assms obtain e ms where ms: "members room = e # ms" and h: "h = fst e"
    by (auto simp: room_ok_def split: list.splits)
  have "userId (snd e) = fst e"
    using assms(1) ms by (simp add: room_ok_def members_ok_def)
  with ms h show ?thesis
    by (cases e) (simp add: jsmap_get_def)
qed

lemma join_sets_null_host:
  assumes "rid \<noteq> []" and "uid \<noteq> []"
    and "case jsmap_get (rooms s) rid of None \<Rightarrow> True | Some r \<Rightarrow> hostUserId r = None"
  shows "\<exists>r'. jsmap_get (rooms (fst (join_room sid rd s (Some rid) (Some uid) n))) rid = Some r'
       \<and> hostUserId r' = Some uid"
  using assms
  by (auto simp: join_room_rooms jsmap_get_set upsert_member_host new_room_def split: option.splits)

text \<open>
  C9. In every state the server can reach, the \<open>hostUserId\<close> of a room, when it is not
  null, is a key of the room's \<open>members\<close>, and the member stored under it carries that
  \<open>userId\<close>. In any state \<open>s\<close>, a \<open>join_room\<close> for a room whose \<open>hostUserId\<close> is null (the
  room is new, or it is in the table with a null host) leaves the joining user as host.
\<close>

theorem host_is_a_member:
  assumes "run init es = Inr st"
  shows "(jsmap_get (rooms st) rid = Some room \<and> hostUserId room = Some h \<longrightarrow>
           (\<exists>m. jsmap_get (members room) h = Some m \<and> userId m = h))
    \<and> (rid' \<noteq> [] \<and> uid \<noteq> []
         \<and> (case jsmap_get (rooms s) rid' of None \<Rightarrow> True | Some r \<Rightarrow> hostUserId r = None) \<longrightarrow>
           (\<exists>r'. jsmap_get (rooms (fst (join_room sid rd s (Some rid') (Some uid) n))) rid' = Some r'
              \<and> hostUserId r' = Some uid))"
  using assms
  by (blast dest: reachable_room_ok room_ok_host intro: join_sets_null_host)

theorem host_is_a_member_witness:
  "run init ex_pair = Inr ex_pair_state
   \<and> jsmap_get (rooms ex_pair_state) ''r1'' = Some ex_pair_room
   \<and> hostUserId ex_pair_room = Some ''alice''
   \<and> jsmap_get (members ex_pair_room) ''alice'' = Some ex_alice \<and> userId ex_alice = ''alice''
   \<and> jsmap_get (rooms ex_lobby_state) ''r1'' = None
   \<and> map_option hostUserId
       (jsmap_get (rooms (fst (join_room ''s1'' ex_reads ex_lobby_state (Some ''r1'') (Some ''alice'')
          (Some ''Alice'')))) ''r1'') = Some (Some ''alice'')"
proof -
  note t = host_is_a_member [OF run_ex_pair, where rid = "''r1''" and room = ex_pair_room
      and h = "''alice''" and rid' = "''r1''" and uid = "''alice''" and s = ex_lobby_state
      and sid = "''s1''" and rd = ex_reads and n = "Some ''Alice''"]
  have h1: "jsmap_get (rooms ex_pair_state) ''r1'' = Some ex_pair_room
      \<and> hostUserId ex_pair_room = Some ''alice''"
    by (simp add: ex_defs jsmap_get_def)
  have h2: "jsmap_get (rooms ex_lobby_state) ''r1'' = None"
    by (simp add: ex_defs jsmap_get_def)
  have m: "jsmap_get (members ex_pair_room) ''alice'' = Some ex_alice" "userId ex_alice = ''alice''"
    by (simp_all add: ex_defs jsmap_get_def)
  from t h1 h2 m run_ex_pair show ?thesis
    by auto
qed

text \<open>
  C2. In a state the server can reach, let a connection leave a room where it resolves to
  user \<open>u\<close>, \<open>u\<close> is the host, the connection is the one stored for \<open>u\<close>, and after removing
  \<open>u\<close> the members are \<open>(k, nh)\<close> followed by \<open>rest\<close>. Then the room stays in the table with
  exactly those members, its host is \<open>k\<close>, the first of them in enumeration order, \<open>k\<close> is a
  key of \<open>members\<close>, and the handler emits exactly two messages: one \<open>promoted_to_host\<close>,
  addressed to the connection stored for \<open>k\<close>, and the \<open>members_update\<close> for the room.
  This is what a \<open>leave_room\<close> message does, and what a disconnect from inside the room
  does to the table and emits.
\<close>

theorem host_departure_promotes_first:
  assumes reach: "run init es = Inr st"
    and room: "jsmap_get (rooms st) rid = Some room"
    and user: "leave_user (closure_of st sid) room sid = Some u"
    and host: "hostUserId room = Some u"
    and mem: "jsmap_get (members room) u = Some m" and cur: "socketId m = sid"
    and rest: "jsmap_delete (members room) u = (k, nh) # rest"
  shows "\<exists>st' room'.
      doLeave sid st rid =
        (st', [Emit (IoTo (socketId nh)) (PromotedToHost rid),
               Emit (IoTo rid) (MembersUpdate rid (serializeMembers room' rid))])
      \<and> jsmap_get (rooms st') rid = Some room'
      \<and> members room' = (k, nh) # rest
      \<and> hostUserId room' = Some k
      \<and> jsmap_get (members room') k = Some nh \<and> userId nh = k
      \<and> handle sid rd st (LeaveRoom (Some rid)) = Inr (doLeave sid st rid)
      \<and> (rid \<noteq> [] \<and> currentRoomId (closure_of st sid) = Some rid \<longrightarrow>
           rooms (fst (disconnect sid st)) = rooms st'
           \<and> snd (disconnect sid st) = snd (doLeave sid st rid))"
proof -
  have ok: "room_ok room"
    using reach room by (rule reachable_room_ok)
  have "(u, m) \<in> set (members room)"
    using mem by (rule jsmap_get_in)
  then have une: "u \<noteq> []"
    using ok by (auto simp: room_ok_def members_ok_def list_all_iff)
  have kin: "(k, nh) \<in> set (members room)"
    using rest by (rule jsmap_delete_Cons)
  then have knh: "userId nh = k"
    using ok by (auto simp: room_ok_def members_ok_def list_all_iff)
  let ?room1 = "remove_member sid (Some u) room"
  have r1: "?room1 = room\<lparr>members := (k, nh) # rest,
      socketToUser := jsmap_delete (socketToUser room) sid\<rparr>"
    using une mem cur rest by (simp add: remove_member_def Let_def)
  let ?room2 = "?room1\<lparr>hostUserId := Some k\<rparr>"
  have re: "reassign_host rid (Some u) ?room1 =
      (?room2, [Emit (IoTo (socketId nh)) (PromotedToHost rid)])"
    using host knh by (simp add: r1 reassign_host_def jsmap_values_def)
  obtain st' out where dl: "doLeave sid st rid = (st', out)"
    by (cases "doLeave sid st rid")
  have out: "out = [Emit (IoTo (socketId nh)) (PromotedToHost rid),
               Emit (IoTo rid) (MembersUpdate rid (serializeMembers ?room2 rid))]"
    using dl room user re
    by (auto simp: doLeave_def Let_def jsmap_size_def r1 split: if_splits)
  have "rooms st' = jsmap_set (rooms st) rid ?room2"
    using dl room user re doLeave_rooms [of sid st rid]
    by (simp add: Let_def r1)
  then have get: "jsmap_get (rooms st') rid = Some ?room2"
    by (simp add: jsmap_get_set)
  have "jsmap_get (members ?room2) k = Some nh"
    by (simp add: r1 jsmap_get_def)
  then show ?thesis
    using dl out get knh disconnect_doLeave [of rid st sid]
    by (auto simp: r1 leave_room_def)
qed

theorem host_departure_promotes_first_witness:
  "run init ex_pair = Inr ex_pair_state
   \<and> jsmap_get (rooms ex_pair_state) ''r1'' = Some ex_pair_room
   \<and> leave_user (closure_of ex_pair_state ''s1'') ex_pair_room ''s1'' = Some ''alice''
   \<and> hostUserId ex_pair_room = Some ''alice''
   \<and> jsmap_get (members ex_pair_room) ''alice'' = Some ex_alice \<and> socketId ex_alice = ''s1''
   \<and> jsmap_delete (members ex_pair_room) ''alice'' = [(''bob'', ex_bob)]
   \<and> snd (doLeave ''s1'' ex_pair_state ''r1'') =
       [Emit (IoTo ''s2'') (PromotedToHost ''r1''),
        Emit (IoTo ''r1'') (MembersUpdate ''r1'' [(''bob'', ''Bob'', ''r1'', 6001)])]
   \<and> map_option (\<lambda>r. (map fst (members r), hostUserId r))
       (jsmap_get (rooms (fst (doLeave ''s1'' ex_pair_state ''r1''))) ''r1'')
       = Some ([''bob''], Some ''bob'')
   \<and> currentRoomId (closure_of ex_pair_state ''s1'') = Some ''r1''
   \<and> snd (disconnect ''s1'' ex_pair_state) =
       [Emit (IoTo ''s2'') (PromotedToHost ''r1''),
        Emit (IoTo ''r1'') (MembersUpdate ''r1'' [(''bob'', ''Bob'', ''r1'', 6001)])]"
proof -
  have h: "jsmap_get (rooms ex_pair_state) ''r1'' = Some ex_pair_room"
    "leave_user (closure_of ex_pair_state ''s1'') ex_pair_room ''s1'' = Some ''alice''"
    "hostUserId ex_pair_room = Some ''alice''"
    "jsmap_get (members ex_pair_room) ''alice'' = Some ex_alice" "socketId ex_alice = ''s1''"
    "jsmap_delete (members ex_pair_room) ''alice'' = [(''bob'', ex_bob)]"
    by (simp_all add: ex_defs jsmap_get_def leave_user_def jsmap_delete_def)
  have b: "socketId ex_bob = ''s2''"
    by (simp add: ex_bob_def)
  have c: "''r1'' \<noteq> [] \<and> currentRoomId (closure_of ex_pair_state ''s1'') = Some ''r1''"
    by (simp add: ex_defs closure_of_def jsmap_get_def)
  from host_departure_promotes_first [OF run_ex_pair h, of ex_later] h b c run_ex_pair
  show ?thesis
    by (auto simp: serializeMembers_def jsmap_values_def ex_bob_def)
qed

text \<open>
  C6 (the code at the failing input). Alice, the host, is in room r1 from two tabs; the
  older tab s1, which is no longer the connection stored for her, disconnects. Her member
  entry and \<open>hostUserId\<close> stay as they were, but the handler sends \<open>promoted_to_host\<close> to her
  newer tab s2 and broadcasts a \<open>members_update\<close>.
\<close>

theorem stale_host_tab_disconnect:
  "run init ex_tabs = Inr ex_tabs_state \<and>
   step ex_tabs_state (Disconnect ''s1'') =
     Inr (\<lparr>rooms = [(''r1'',
            \<lparr>members = [(''alice'', \<lparr>userId = ''alice'', username = ''Alice'', socketId = ''s2'',
                 joinedAt = 1001\<rparr>)],
               socketToUser = [(''s2'', ''alice'')], hostUserId = Some ''alice'',
               currentSong = None, position = 0, status = ''idle'', lastSync = 1000\<rparr>)],
            conns = [(''s2'', \<lparr>currentRoomId = Some ''r1'', currentUserId = Some ''alice''\<rparr>)],
            adapter = [(''r1'', ''s2''), (''s2'', ''s2'')]\<rparr>,
          [Emit (IoTo ''s2'') (PromotedToHost ''r1''),
           Emit (IoTo ''r1'') (MembersUpdate ''r1'' [(''alice'', ''Alice'', ''r1'', 1001)])])"
  by (simp add: run_ex_tabs) (simp add: ex_defs model_defs Let_def)

subsection \<open>Re-joining\<close>

lemma join_all_ok: "server_ok st \<Longrightarrow> server_ok (join_all st rid uid js)"
  by (induction st rid uid js rule: join_all.induct) (simp_all add: join_room_ok)

lemma join_all_member:
  assumes "rid \<noteq> []" and "uid \<noteq> []" and "member_of st rid uid = Some m0"
  shows "\<exists>m. member_of (join_all st rid uid js) rid uid = Some m \<and> joinedAt m = joinedAt m0
     \<and> socketId m = (if js = [] then socketId m0 else fst (last js))"
  using assms
proof (induction st rid uid js arbitrary: m0 rule: join_all.induct)
  case (1 st rid uid)
  then show ?case by simp
next
  case (2 st rid uid sid rd n js)
  let ?st1 = "fst (join_room sid rd st (Some rid) (Some uid) n)"
  let ?m1 = "\<lparr>userId = uid, username = (if truthy n then the n else ''Anonymous''), socketId = sid,
        joinedAt = joinedAt m0\<rparr>"
  have m1: "member_of ?st1 rid uid = Some ?m1"
    using "2.prems" by (simp add: join_member)
  from "2.IH" [OF "2.prems"(1,2) m1] show ?case
    by (cases js) auto
qed

text \<open>
  C4. Start from a state the server can reach and let any non-empty run of \<open>join_room\<close>
  messages for the same room and the same user arrive, from any connections. Afterwards
  the room's \<open>members\<close> holds exactly one entry under that user id; its \<open>joinedAt\<close> is the
  one stored by the first join of the run (the clock reading of that join, or the value
  already stored if the user was a member before); its \<open>socketId\<close> is the connection of
  the last join.
\<close>

theorem rejoin_keeps_single_entry:
  assumes reach: "run init es = Inr st" and ne: "rid \<noteq> []" "uid \<noteq> []"
  shows "\<exists>room m m1.
      member_of (join_all st rid uid [j]) rid uid = Some m1
      \<and> joinedAt m1 = (case member_of st rid uid of
                         Some old \<Rightarrow> joinedAt old
                       | None \<Rightarrow> tJoined (fst (snd j)))
      \<and> jsmap_get (rooms (join_all st rid uid (j # js))) rid = Some room
      \<and> length (filter (\<lambda>e. fst e = uid) (members room)) = 1
      \<and> jsmap_get (members room) uid = Some m
      \<and> joinedAt m = joinedAt m1
      \<and> socketId m = fst (last (j # js))"
proof -
  obtain sid rd n where j: "j = (sid, rd, n)" by (cases j)
  let ?st1 = "fst (join_room sid rd st (Some rid) (Some uid) n)"
  let ?m1 = "\<lparr>userId = uid, username = (if truthy n then the n else ''Anonymous''), socketId = sid,
        joinedAt = (case member_of st rid uid of Some old \<Rightarrow> joinedAt old | None \<Rightarrow> tJoined rd)\<rparr>"
  have m1: "member_of ?st1 rid uid = Some ?m1"
    using ne by (simp add: join_member)
  obtain m where m: "member_of (join_all ?st1 rid uid js) rid uid = Some m"
    and jm: "joinedAt m = joinedAt ?m1"
    and sm: "socketId m = (if js = [] then socketId ?m1 else fst (last js))"
    using join_all_member [OF ne m1, of js] by blast
  obtain room where room: "jsmap_get (rooms (join_all ?st1 rid uid js)) rid = Some room"
    and get: "jsmap_get (members room) uid = Some m"
    using m by (auto simp: member_of_def split: option.splits)
  have "server_ok (join_all st rid uid (j # js))"
    using reach by (intro join_all_ok reachable_ok)
  then have "room_ok room"
    using room j by (auto simp: server_ok_def dest: list_all_jsmap_get)
  then have "distinct (map fst (members room))"
    by (simp add: room_ok_def members_ok_def)
  then have one: "length (filter (\<lambda>e. fst e = uid) (members room)) = 1"
    using get by (rule count_distinct_key)
  show ?thesis
    unfolding j using m1 room get one jm sm by (auto cong: option.case_cong)
qed

theorem rejoin_keeps_single_entry_witness:
  "run init ex_lobby = Inr ex_lobby_state \<and> ''r1'' \<noteq> [] \<and> ''alice'' \<noteq> []
   \<and> map_option joinedAt
       (member_of (join_all ex_lobby_state ''r1'' ''alice'' [(''s1'', ex_reads, Some ''Alice'')])
          ''r1'' ''alice'') = Some 1001
   \<and> (\<exists>room m.
        jsmap_get (rooms (join_all ex_lobby_state ''r1'' ''alice''
           [(''s1'', ex_reads, Some ''Alice''), (''s2'', ex_later, Some ''Alice'')])) ''r1'' = Some room
        \<and> length (filter (\<lambda>e. fst e = ''alice'') (members room)) = 1
        \<and> jsmap_get (members room) ''alice'' = Some m
        \<and> joinedAt m = 1001 \<and> socketId m = ''s2'')"
proof -
  have n: "member_of ex_lobby_state ''r1'' ''alice'' = None"
    by (simp add: ex_defs member_of_def jsmap_get_def)
  have ne: "''r1'' \<noteq> []" "''alice'' \<noteq> []"
    by simp_all
  from rejoin_keeps_single_entry [OF run_ex_lobby ne,
      of "(''s1'', ex_reads, Some ''Alice'')" "[(''s2'', ex_later, Some ''Alice'')]"]
  show ?thesis
    using run_ex_lobby by (auto simp: n ex_reads_def)
qed

end
